theory Spec2Isabelle
  imports Main
begin

section \<open>JavaScript values, completions and promises\<close>

text \<open>
  The managers of \<^verbatim>\<open>sdks/js/src/managers/user.js\<close> receive and pass on arbitrary
  JavaScript values. Numbers are only ever passed through (never computed with), so the
  model carries the integers. \<open>JError m\<close> is the object \<^verbatim>\<open>new Error(m)\<close>;
  \<open>JTypeError\<close> is a \<^verbatim>\<open>TypeError\<close> raised by the language itself (its message
  is engine specific and is not modelled). Function values are not part of the model.
\<close>

datatype jsval =
    JUndefined
  | JNull
  | JBool bool
  | JNum int
  | JStr string
  | JArr "jsval list"
  | JObj "(string \<times> jsval) list"
  | JError string
  | JTypeError

text \<open>A call either throws a value or returns one.\<close>

datatype 'a completion = Throws jsval | Returns 'a

text \<open>
  A promise is identified with the way it settles; \<open>Pending\<close> is a promise that never
  settles.
\<close>

datatype promise = Resolved jsval | Rejected jsval | Pending

text \<open>
  Reading a property \<^verbatim>\<open>v.k\<close>, for the property names this module reads
  (\<^verbatim>\<open>userId\<close>, \<^verbatim>\<open>about\<close>, \<^verbatim>\<open>name\<close>, \<^verbatim>\<open>docs\<close>, \<^verbatim>\<open>limit\<close>,
  \<^verbatim>\<open>offset\<close>, \<^verbatim>\<open>items\<close>): \<^verbatim>\<open>undefined\<close> and \<^verbatim>\<open>null\<close> raise a TypeError,
  an object gives the stored value or \<^verbatim>\<open>undefined\<close>, an error object has its class
  name under \<^verbatim>\<open>name\<close>, and primitives and arrays have none of these properties.
  The same function models the destructuring of a parameter, which reads the properties
  of the argument one by one and raises the TypeError on \<^verbatim>\<open>undefined\<close> and \<^verbatim>\<open>null\<close>.
\<close>

fun property :: "jsval \<Rightarrow> string \<Rightarrow> jsval completion" where
  "property JUndefined k = Throws JTypeError"
| "property JNull k = Throws JTypeError"
| "property (JObj kvs) k = Returns (case map_of kvs k of None \<Rightarrow> JUndefined | Some v \<Rightarrow> v)"
| "property (JError m) k = Returns (if k = ''name'' then JStr ''Error'' else JUndefined)"
| "property JTypeError k = Returns (if k = ''name'' then JStr ''TypeError'' else JUndefined)"
| "property v k = Returns JUndefined"

text \<open>A default value (\<^verbatim>\<open>x = d\<close> in a parameter list or a pattern) replaces \<^verbatim>\<open>undefined\<close> only.\<close>

definition dflt :: "jsval \<Rightarrow> jsval \<Rightarrow> jsval" where
  "dflt v d = (if v = JUndefined then d else v)"

text \<open>\<^verbatim>\<open>Array.prototype.map\<close> with a callback that may throw: the first exception ends the loop.\<close>

fun array_map :: "(jsval \<Rightarrow> jsval completion) \<Rightarrow> jsval list \<Rightarrow> jsval list completion" where
  "array_map f [] = Returns []"
| "array_map f (x # xs) =
     (case f x of
        Throws e \<Rightarrow> Throws e
      | Returns y \<Rightarrow>
          (case array_map f xs of
             Throws e \<Rightarrow> Throws e
           | Returns ys \<Rightarrow> Returns (y # ys)))"

text \<open>
  The method call \<^verbatim>\<open>v.map(f)\<close>: only an array has a callable \<^verbatim>\<open>map\<close> in this value
  model; on every other value the call raises a TypeError (no property of
  \<^verbatim>\<open>null\<close>, or \<^verbatim>\<open>v.map is not a function\<close>).
\<close>

fun call_map :: "jsval \<Rightarrow> (jsval \<Rightarrow> jsval completion) \<Rightarrow> jsval completion" where
  "call_map (JArr xs) f =
     (case array_map f xs of Throws e \<Rightarrow> Throws e | Returns ys \<Rightarrow> Returns (JArr ys))"
| "call_map v f = Throws JTypeError"

text \<open>\<^verbatim>\<open>Promise.reject(e)\<close> and \<^verbatim>\<open>p.catch(h)\<close> for a handler that answers with a promise.\<close>

definition Promise_reject :: "jsval \<Rightarrow> promise" where
  "Promise_reject e = Rejected e"

fun promise_catch :: "promise \<Rightarrow> (jsval \<Rightarrow> promise) \<Rightarrow> promise" where
  "promise_catch (Resolved v) h = Resolved v"
| "promise_catch (Rejected e) h = h e"
| "promise_catch Pending h = Pending"

text \<open>
  \<^verbatim>\<open>c.catch(h)\<close> where \<open>c\<close> is the completion of the call that produces the promise: when
  that call throws, \<^verbatim>\<open>.catch\<close> is never reached.
\<close>

fun method_catch :: "promise completion \<Rightarrow> (jsval \<Rightarrow> promise) \<Rightarrow> promise completion" where
  "method_catch (Throws e) h = Throws e"
| "method_catch (Returns p) h = Returns (promise_catch p h)"

text \<open>
  Inside an \<^verbatim>\<open>async\<close> function: \<^verbatim>\<open>await p\<close> continues with the value of a resolved
  promise, throws the reason of a rejected one, and never continues (\<open>None\<close>) on a promise
  that never settles. \<open>await_call\<close> is \<^verbatim>\<open>await e\<close> for an operand \<open>e\<close> that may throw
  before there is a promise to wait for.
\<close>

fun await :: "promise \<Rightarrow> jsval completion option" where
  "await (Resolved v) = Some (Returns v)"
| "await (Rejected e) = Some (Throws e)"
| "await Pending = None"

fun await_call :: "promise completion \<Rightarrow> jsval completion option" where
  "await_call (Throws e) = Some (Throws e)"
| "await_call (Returns p) = await p"

text \<open>
  The promise an \<^verbatim>\<open>async\<close> function returns, from the way its body ends: an exception of
  the body (also one raised while the parameters are bound) rejects the promise, it is
  never thrown to the caller.
\<close>

fun async :: "jsval completion option \<Rightarrow> promise" where
  "async None = Pending"
| "async (Some (Throws e)) = Rejected e"
| "async (Some (Returns v)) = Resolved v"

section \<open>What the module takes from outside\<close>

text \<open>
  The collaborator \<^verbatim>\<open>this.apiClient\<close>: five methods, each of which throws or returns a
  promise. It is opaque to the managers.
\<close>

record api_client =
  getUser :: "jsval \<Rightarrow> promise completion"
  createUser :: "jsval \<Rightarrow> promise completion"
  listUsers :: "jsval \<Rightarrow> jsval \<Rightarrow> promise completion"
  deleteUser :: "jsval \<Rightarrow> promise completion"
  updateUser :: "jsval \<Rightarrow> jsval \<Rightarrow> promise completion"

text \<open>The invocations of the collaborator, with their arguments.\<close>

datatype call =
    GetUser jsval
  | CreateUser jsval
  | ListUsers jsval jsval
  | DeleteUser jsval
  | UpdateUser jsval jsval

text \<open>
  The three names of \<^verbatim>\<open>user.js\<close> whose code is in other files of the repository:
  \<^verbatim>\<open>this.apiClient\<close> (stored by the constructor of \<^verbatim>\<open>BaseManager\<close>, \<^verbatim>\<open>./base\<close>),
  \<^verbatim>\<open>isValidUuid4\<close> (\<^verbatim>\<open>./utils\<close>) and the constructor \<^verbatim>\<open>CreateDoc\<close>
  (\<^verbatim>\<open>../api/serialization/types\<close>). They are parameters of the model.
\<close>

record manager =
  apiClient :: api_client
  isValidUuid4 :: "jsval \<Rightarrow> bool"
  CreateDoc :: "jsval \<Rightarrow> jsval completion"

section \<open>BaseUsersManager\<close>

text \<open>
  Each method returns its completion (an exception thrown to the caller, or the promise
  returned) together with the list of collaborator invocations it made. The methods
  \<^verbatim>\<open>_get\<close>, \<^verbatim>\<open>_create\<close>, \<^verbatim>\<open>_listItems\<close>, \<^verbatim>\<open>_delete\<close>, \<^verbatim>\<open>_update\<close> are
  \<open>BaseUsersManager_get\<close>, ... here (a name cannot start with an underscore).
\<close>

definition BaseUsersManager_get :: "manager \<Rightarrow> jsval \<Rightarrow> promise completion \<times> call list" where
  "BaseUsersManager_get this ident =
     (if \<not> isValidUuid4 this ident then (Throws (JError ''id must be a valid UUID v4''), [])
      else (method_catch (getUser (apiClient this) ident) (\<lambda>error. Promise_reject error),
            [GetUser ident]))"

definition BaseUsersManager_create ::
    "manager \<Rightarrow> jsval \<Rightarrow> jsval \<Rightarrow> jsval \<Rightarrow> promise completion \<times> call list" where
  "BaseUsersManager_create this name about docs =
     (case call_map (dflt docs (JArr [])) (\<lambda>doc. CreateDoc this doc) of
        Throws e \<Rightarrow> (Throws e, [])
      | Returns docsPrepared \<Rightarrow>
          (method_catch
             (createUser (apiClient this)
                (JObj [(''name'', name), (''about'', about), (''docsPrepared'', docsPrepared)]))
             (\<lambda>error. Promise_reject error),
           [CreateUser
              (JObj [(''name'', name), (''about'', about), (''docsPrepared'', docsPrepared)])]))"

definition BaseUsersManager_listItems ::
    "manager \<Rightarrow> jsval \<Rightarrow> jsval \<Rightarrow> promise completion \<times> call list" where
  "BaseUsersManager_listItems this limit offset =
     (method_catch (listUsers (apiClient this) limit offset) (\<lambda>error. Promise_reject error),
      [ListUsers limit offset])"

definition BaseUsersManager_delete :: "manager \<Rightarrow> jsval \<Rightarrow> promise completion \<times> call list" where
  "BaseUsersManager_delete this userId =
     (if \<not> isValidUuid4 this userId then (Throws (JError ''id must be a valid UUID v4''), [])
      else (method_catch (deleteUser (apiClient this) userId) (\<lambda>error. Promise_reject error),
            [DeleteUser userId]))"

definition BaseUsersManager_update ::
    "manager \<Rightarrow> jsval \<Rightarrow> jsval \<Rightarrow> jsval \<Rightarrow> promise completion \<times> call list" where
  "BaseUsersManager_update this userId about name =
     (if \<not> isValidUuid4 this userId then (Throws (JError ''id must be a valid UUID v4''), [])
      else (method_catch
              (updateUser (apiClient this) userId (JObj [(''about'', about), (''name'', name)]))
              (\<lambda>error. Promise_reject error),
            [UpdateUser userId (JObj [(''about'', about), (''name'', name)])]))"

section \<open>UsersManager\<close>

text \<open>
  The public methods are \<^verbatim>\<open>async\<close>: each returns a promise (given by the way it
  settles) and the collaborator invocations made.
\<close>

definition UsersManager_get :: "manager \<Rightarrow> jsval \<Rightarrow> promise \<times> call list" where
  "UsersManager_get this ident =
     (case BaseUsersManager_get this ident of
        (c, calls) \<Rightarrow> (async (await_call c), calls))"

definition UsersManager_create :: "manager \<Rightarrow> jsval \<Rightarrow> promise \<times> call list" where
  "UsersManager_create this arg =
     (case property arg ''name'' of
        Throws e \<Rightarrow> (Rejected e, [])
      | Returns name \<Rightarrow>
     (case property arg ''about'' of
        Throws e \<Rightarrow> (Rejected e, [])
      | Returns about \<Rightarrow>
     (case property arg ''docs'' of
        Throws e \<Rightarrow> (Rejected e, [])
      | Returns docs \<Rightarrow>
     (case BaseUsersManager_create this name about (dflt docs (JArr [])) of
        (c, calls) \<Rightarrow> (async (await_call c), calls)))))"

definition UsersManager_list :: "manager \<Rightarrow> jsval \<Rightarrow> promise \<times> call list" where
  "UsersManager_list this arg =
     (case property (dflt arg (JObj [])) ''limit'' of
        Throws e \<Rightarrow> (Rejected e, [])
      | Returns limit \<Rightarrow>
     (case property (dflt arg (JObj [])) ''offset'' of
        Throws e \<Rightarrow> (Rejected e, [])
      | Returns offset \<Rightarrow>
     (case BaseUsersManager_listItems this (dflt limit (JNum 100)) (dflt offset (JNum 0)) of
        (c, calls) \<Rightarrow>
          (async
             (case await_call c of
                None \<Rightarrow> None
              | Some (Throws e) \<Rightarrow> Some (Throws e)
              | Some (Returns response) \<Rightarrow> Some (property response ''items'')),
           calls))))"

definition UsersManager_delete :: "manager \<Rightarrow> jsval \<Rightarrow> promise \<times> call list" where
  "UsersManager_delete this userId =
     (case BaseUsersManager_delete this userId of
        (c, calls) \<Rightarrow>
          (async
             (case await_call c of
                None \<Rightarrow> None
              | Some (Throws e) \<Rightarrow> Some (Throws e)
              | Some (Returns ignored) \<Rightarrow> Some (Returns JNull)),
           calls))"

definition UsersManager_update :: "manager \<Rightarrow> jsval \<Rightarrow> promise \<times> call list" where
  "UsersManager_update this arg =
     (case property (dflt arg (JObj [])) ''userId'' of
        Throws e \<Rightarrow> (Rejected e, [])
      | Returns userId \<Rightarrow>
     (case property (dflt arg (JObj [])) ''about'' of
        Throws e \<Rightarrow> (Rejected e, [])
      | Returns about \<Rightarrow>
     (case property (dflt arg (JObj [])) ''name'' of
        Throws e \<Rightarrow> (Rejected e, [])
      | Returns name \<Rightarrow>
     (case BaseUsersManager_update this userId about name of
        (c, calls) \<Rightarrow> (async (await_call c), calls)))))"

section \<open>A concrete validator and concrete collaborators\<close>

text \<open>Hexadecimal digits, and a template of the hyphenated text form of an identifier.\<close>

definition is_hex :: "char \<Rightarrow> bool" where
  "is_hex c = (c \<in> set ''0123456789abcdefABCDEF'')"

definition uuid4_template :: string where
  "uuid4_template = ''xxxxxxxx-xxxx-4xxx-xxxx-xxxxxxxxxxxx''"

definition template_match :: "char \<Rightarrow> char \<Rightarrow> bool" where
  "template_match t c = (if t = CHR ''x'' then is_hex c else c = t)"

text \<open>
  Modelled from the spec: \<^verbatim>\<open>isValidUuid4\<close> of \<^verbatim>\<open>./utils\<close> is not among the sources.
  The spec calls an identifier valid when it is a version-4 unique identifier "rendered in
  standard hyphenated hexadecimal text form": 8-4-4-4-12 hexadecimal digits, the first
  digit of the third group being the version, 4. A value that is not a string is not
  valid. The theorems below hold for every validator; this one instantiates them.
\<close>

fun uuid4_text :: "jsval \<Rightarrow> bool" where
  "uuid4_text (JStr s) = list_all2 template_match uuid4_template s"
| "uuid4_text v = False"

text \<open>A collaborator whose promises all resolve, with recognisable values.\<close>

definition echo_client :: api_client where
  "echo_client =
     \<lparr> getUser = (\<lambda>ident. Returns (Resolved (JObj [(''id'', ident), (''name'', JStr ''Ada'')]))),
       createUser = (\<lambda>body. Returns (Resolved (JObj [(''created'', body)]))),
       listUsers = (\<lambda>limit offset. Returns (Resolved
          (JObj [(''items'', JArr [JStr ''u1'', JStr ''u2'']),
                 (''limit'', limit), (''offset'', offset)]))),
       deleteUser = (\<lambda>ident. Returns (Resolved (JStr ''deleted''))),
       updateUser = (\<lambda>ident body. Returns (Resolved (JObj [(''updated'', ident), (''body'', body)]))) \<rparr>"

text \<open>A collaborator whose promises all reject with the given value.\<close>

definition rejecting_client :: "jsval \<Rightarrow> api_client" where
  "rejecting_client e =
     \<lparr> getUser = (\<lambda>ident. Returns (Rejected e)),
       createUser = (\<lambda>body. Returns (Rejected e)),
       listUsers = (\<lambda>limit offset. Returns (Rejected e)),
       deleteUser = (\<lambda>ident. Returns (Rejected e)),
       updateUser = (\<lambda>ident body. Returns (Rejected e)) \<rparr>"

text \<open>\<^verbatim>\<open>new CreateDoc(doc)\<close> as a constructor that keeps the document under a tag.\<close>

definition tagging_CreateDoc :: "jsval \<Rightarrow> jsval completion" where
  "tagging_CreateDoc doc = Returns (JObj [(''CreateDoc'', doc)])"

definition manager_of :: "api_client \<Rightarrow> manager" where
  "manager_of client =
     \<lparr> apiClient = client, isValidUuid4 = uuid4_text, CreateDoc = tagging_CreateDoc \<rparr>"

definition sample_id :: jsval where
  "sample_id = JStr ''9b1deb4d-3b7d-4bad-9bdd-2b0d7b3dcb6d''"



text \<open>
  The call of a collaborator method fails with \<open>e\<close>: it throws \<open>e\<close>, or the promise it
  returns is rejected with \<open>e\<close>.
\<close>

definition fails_with :: "promise completion \<Rightarrow> jsval \<Rightarrow> bool" where
  "fails_with c e = (c = Throws e \<or> c = Returns (Rejected e))"

section \<open>Basic facts\<close>

lemma catch_reject_id: "promise_catch p (\<lambda>error. Promise_reject error) = p"
  by (cases p) (simp_all add: Promise_reject_def)

lemma method_catch_reject_id: "method_catch c (\<lambda>error. Promise_reject error) = c"
  by (cases c) (simp_all add: catch_reject_id)

lemma sample_id_valid: "uuid4_text sample_id"
  by (simp add: sample_id_def uuid4_template_def template_match_def is_hex_def)

lemma uuid4_text_undefined: "\<not> uuid4_text JUndefined"
  by simp

lemma property_total:
  assumes "property v k = Returns x"
  shows "\<exists>y. property v k' = Returns y"
  using assms by (cases v) simp_all

lemma map_Returns_eq: "map Returns xs = map Returns ys \<longleftrightarrow> xs = ys"
  by (rule inj_map_eq_map) (simp add: inj_def)

lemma array_map_Returns: "array_map f xs = Returns ys \<longleftrightarrow> map f xs = map Returns ys"
proof (induction xs arbitrary: ys)
  case Nil
  then show ?case by auto
next
  case (Cons x xs)
  show ?case
  proof (cases "f x")
    case (Throws e)
    then show ?thesis by (cases ys) auto
  next
    case (Returns y)
    show ?thesis
    proof (cases "array_map f xs")
      case (Throws e)
      have "map f xs \<noteq> map Returns zs" for zs
        using Cons.IH [of zs] Throws by simp
      with Returns Throws show ?thesis by (cases ys) auto
    next
      case inner: (Returns zs)
      then have "map f xs = map Returns zs"
        using Cons.IH [of zs] by simp
      with Returns inner show ?thesis
        by (cases ys) (auto simp: map_Returns_eq)
    qed
  qed
qed

lemma async_await_rejected: "async (await_call c) = Rejected e \<longleftrightarrow> fails_with c e"
  by (cases c; cases "case c of Returns p \<Rightarrow> p") (auto simp: fails_with_def)

lemma async_await_fails: "fails_with c e \<Longrightarrow> async (await_call c) = Rejected e"
  by (simp add: async_await_rejected)

lemma dflt_idem: "dflt (dflt v d) d = dflt v d"
  by (simp add: dflt_def)

lemma property_nullish: "arg = JUndefined \<or> arg = JNull \<Longrightarrow> property arg k = Throws JTypeError"
  by auto






lemma create_unfold:
  assumes "property arg ''name'' = Returns name"
    and "property arg ''about'' = Returns about"
    and "property arg ''docs'' = Returns docs"
  shows "UsersManager_create this arg =
    (case call_map (dflt docs (JArr [])) (\<lambda>doc. CreateDoc this doc) of
       Throws e \<Rightarrow> (Rejected e, [])
     | Returns docsPrepared \<Rightarrow>
         (async (await_call (createUser (apiClient this)
            (JObj [(''name'', name), (''about'', about), (''docsPrepared'', docsPrepared)]))),
          [CreateUser
            (JObj [(''name'', name), (''about'', about), (''docsPrepared'', docsPrepared)])]))"
  using assms
  by (simp add: UsersManager_create_def BaseUsersManager_create_def dflt_idem
      method_catch_reject_id split: completion.splits)


lemma create_accepted:
  assumes "property arg ''name'' = Returns name"
    and "property arg ''about'' = Returns about"
    and "property arg ''docs'' = Returns docs"
    and "dflt docs (JArr []) = JArr ds"
    and "map (CreateDoc this) ds = map Returns docsPrepared"
  shows "UsersManager_create this arg =
         (async (await_call (createUser (apiClient this)
            (JObj [(''name'', name), (''about'', about), (''docsPrepared'', JArr docsPrepared)]))),
          [CreateUser
            (JObj [(''name'', name), (''about'', about), (''docsPrepared'', JArr docsPrepared)])])"
proof -
  have "array_map (\<lambda>doc. CreateDoc this doc) ds = Returns docsPrepared"
    using assms(5) by (simp add: array_map_Returns)
  then show ?thesis
    using create_unfold [OF assms(1-3), of this] assms(4) by simp
qed



lemma await_call_fails: "fails_with c e \<Longrightarrow> await_call c = Some (Throws e)"
  by (auto simp: fails_with_def)

lemma list_unfold:
  assumes "property (dflt arg (JObj [])) ''limit'' = Returns limit"
    and "property (dflt arg (JObj [])) ''offset'' = Returns offset"
  shows "UsersManager_list this arg =
    (async
       (case await_call (listUsers (apiClient this) (dflt limit (JNum 100)) (dflt offset (JNum 0))) of
          None \<Rightarrow> None
        | Some (Throws e) \<Rightarrow> Some (Throws e)
        | Some (Returns response) \<Rightarrow> Some (property response ''items'')),
     [ListUsers (dflt limit (JNum 100)) (dflt offset (JNum 0))])"
  using assms
  by (simp add: UsersManager_list_def BaseUsersManager_listItems_def method_catch_reject_id)

lemma update_unfold:
  assumes "property (dflt arg (JObj [])) ''userId'' = Returns userId"
    and "property (dflt arg (JObj [])) ''about'' = Returns about"
    and "property (dflt arg (JObj [])) ''name'' = Returns name"
    and "isValidUuid4 this userId"
  shows "UsersManager_update this arg =
    (async (await_call (updateUser (apiClient this) userId
        (JObj [(''about'', about), (''name'', name)]))),
     [UpdateUser userId (JObj [(''about'', about), (''name'', name)])])"
  using assms
  by (simp add: UsersManager_update_def BaseUsersManager_update_def method_catch_reject_id)

section \<open>Identifier validation\<close>

text \<open>
  C1. For every value \<open>ident\<close> that the validator rejects (in particular every string that
  is not a well-formed version-4 identifier), \<^verbatim>\<open>_get\<close>, \<^verbatim>\<open>_delete\<close> and \<^verbatim>\<open>_update\<close>
  throw \<^verbatim>\<open>Error("id must be a valid UUID v4")\<close> to their caller, synchronously, instead
  of returning a promise; the \<^verbatim>\<open>async\<close> methods \<^verbatim>\<open>get\<close>, \<^verbatim>\<open>delete\<close> and \<^verbatim>\<open>update\<close>
  surface that error as the rejection of their promise. In all six the collaborator is not
  invoked. For \<^verbatim>\<open>update\<close>, \<open>ident\<close> is the \<^verbatim>\<open>userId\<close> read from the argument object.
\<close>

theorem invalid_id_fails_without_collaborator:
  assumes "\<not> isValidUuid4 this ident"
    and "property (dflt arg (JObj [])) ''userId'' = Returns ident"
  shows "BaseUsersManager_get this ident
        = (Throws (JError ''id must be a valid UUID v4''), [])
    \<and> BaseUsersManager_delete this ident
        = (Throws (JError ''id must be a valid UUID v4''), [])
    \<and> BaseUsersManager_update this ident about name
        = (Throws (JError ''id must be a valid UUID v4''), [])
    \<and> UsersManager_get this ident
        = (Rejected (JError ''id must be a valid UUID v4''), [])
    \<and> UsersManager_delete this ident
        = (Rejected (JError ''id must be a valid UUID v4''), [])
    \<and> UsersManager_update this arg
        = (Rejected (JError ''id must be a valid UUID v4''), [])"
proof -
  obtain a where a: "property (dflt arg (JObj [])) ''about'' = Returns a"
    using property_total [OF assms(2)] by blast
  obtain n where n: "property (dflt arg (JObj [])) ''name'' = Returns n"
    using property_total [OF assms(2)] by blast
  have "UsersManager_update this arg
      = (Rejected (JError ''id must be a valid UUID v4''), [])"
    using assms a n by (simp add: UsersManager_update_def BaseUsersManager_update_def)
  then show ?thesis
    using assms(1)
    by (simp add: BaseUsersManager_get_def BaseUsersManager_delete_def
        BaseUsersManager_update_def UsersManager_get_def UsersManager_delete_def)
qed

theorem invalid_id_fails_without_collaborator_witness:
  "\<not> isValidUuid4 (manager_of echo_client) (JStr ''not-a-uuid'')
   \<and> property (dflt (JObj [(''userId'', JStr ''not-a-uuid''), (''name'', JStr ''Ada'')]) (JObj []))
        ''userId'' = Returns (JStr ''not-a-uuid'')
   \<and> BaseUsersManager_get (manager_of echo_client) (JStr ''not-a-uuid'')
        = (Throws (JError ''id must be a valid UUID v4''), [])
   \<and> BaseUsersManager_delete (manager_of echo_client) (JStr ''not-a-uuid'')
        = (Throws (JError ''id must be a valid UUID v4''), [])
   \<and> BaseUsersManager_update (manager_of echo_client) (JStr ''not-a-uuid'') JUndefined
          (JStr ''Ada'')
        = (Throws (JError ''id must be a valid UUID v4''), [])
   \<and> UsersManager_get (manager_of echo_client) (JStr ''not-a-uuid'')
        = (Rejected (JError ''id must be a valid UUID v4''), [])
   \<and> UsersManager_delete (manager_of echo_client) (JStr ''not-a-uuid'')
        = (Rejected (JError ''id must be a valid UUID v4''), [])
   \<and> UsersManager_update (manager_of echo_client)
          (JObj [(''userId'', JStr ''not-a-uuid''), (''name'', JStr ''Ada'')])
        = (Rejected (JError ''id must be a valid UUID v4''), [])"
proof -
  have invalid: "\<not> isValidUuid4 (manager_of echo_client) (JStr ''not-a-uuid'')"
    by (simp add: manager_of_def uuid4_template_def)
  have extracted:
    "property (dflt (JObj [(''userId'', JStr ''not-a-uuid''), (''name'', JStr ''Ada'')]) (JObj []))
       ''userId'' = Returns (JStr ''not-a-uuid'')"
    by (simp add: dflt_def)
  show ?thesis
    using invalid extracted
      invalid_id_fails_without_collaborator [OF invalid extracted, of JUndefined "JStr ''Ada''"]
    by simp
qed

section \<open>Retrieval\<close>

text \<open>
  C3. For every identifier that the validator accepts, when the collaborator's
  \<^verbatim>\<open>getUser(id)\<close> returns a promise that resolves with \<open>v\<close>, \<^verbatim>\<open>get(id)\<close> resolves with
  exactly \<open>v\<close>; the collaborator is invoked once, with \<open>id\<close>. The base method \<^verbatim>\<open>_get\<close>
  returns the promise resolved with \<open>v\<close>.
\<close>

theorem get_returns_collaborator_value:
  assumes "isValidUuid4 this ident"
    and "getUser (apiClient this) ident = Returns (Resolved v)"
  shows "UsersManager_get this ident = (Resolved v, [GetUser ident])
    \<and> BaseUsersManager_get this ident = (Returns (Resolved v), [GetUser ident])"
  using assms
  by (simp add: UsersManager_get_def BaseUsersManager_get_def method_catch_reject_id)

theorem get_returns_collaborator_value_witness:
  "isValidUuid4 (manager_of echo_client) sample_id
   \<and> getUser (apiClient (manager_of echo_client)) sample_id
     = Returns (Resolved (JObj [(''id'', sample_id), (''name'', JStr ''Ada'')]))
   \<and> UsersManager_get (manager_of echo_client) sample_id
     = (Resolved (JObj [(''id'', sample_id), (''name'', JStr ''Ada'')]), [GetUser sample_id])
   \<and> BaseUsersManager_get (manager_of echo_client) sample_id
     = (Returns (Resolved (JObj [(''id'', sample_id), (''name'', JStr ''Ada'')])),
        [GetUser sample_id])"
proof -
  have valid: "isValidUuid4 (manager_of echo_client) sample_id"
    by (simp add: manager_of_def sample_id_valid)
  have resolves: "getUser (apiClient (manager_of echo_client)) sample_id
      = Returns (Resolved (JObj [(''id'', sample_id), (''name'', JStr ''Ada'')]))"
    by (simp add: manager_of_def echo_client_def)
  show ?thesis
    using valid resolves get_returns_collaborator_value [OF valid resolves] by simp
qed

section \<open>Update\<close>

text \<open>
  C2, as stated, fails: the argument object of \<^verbatim>\<open>update\<close> is destructured by the key
  \<^verbatim>\<open>userId\<close>, so in \<^verbatim>\<open>update({id: validId, about: "new bio"})\<close> the key \<^verbatim>\<open>id\<close> is
  ignored, the identifier read is \<^verbatim>\<open>undefined\<close>, and the call is rejected without the
  collaborator being invoked.
\<close>

theorem update_by_id_key_counterexample:
  "UsersManager_update (manager_of echo_client)
     (JObj [(''id'', sample_id), (''about'', JStr ''new bio'')])
   = (Rejected (JError ''id must be a valid UUID v4''), [])"
  by (simp add: UsersManager_update_def BaseUsersManager_update_def dflt_def manager_of_def)

text \<open>
  C2, amended. \<^verbatim>\<open>update({userId: validId, about: "new bio"})\<close>, for an identifier the
  validator accepts: the collaborator's \<^verbatim>\<open>updateUser\<close> is invoked once, with the
  identifier and the payload \<^verbatim>\<open>{about: "new bio", name: undefined}\<close>, and when its promise
  resolves with \<open>r\<close> the call resolves with exactly \<open>r\<close>.
\<close>

theorem update_by_userId_delegates:
  assumes "isValidUuid4 this validId"
    and "updateUser (apiClient this) validId
           (JObj [(''about'', JStr ''new bio''), (''name'', JUndefined)])
         = Returns (Resolved r)"
  shows "UsersManager_update this (JObj [(''userId'', validId), (''about'', JStr ''new bio'')])
    = (Resolved r,
       [UpdateUser validId (JObj [(''about'', JStr ''new bio''), (''name'', JUndefined)])])"
  using assms
  by (simp add: UsersManager_update_def BaseUsersManager_update_def dflt_def
      method_catch_reject_id)

theorem update_by_userId_delegates_witness:
  "isValidUuid4 (manager_of echo_client) sample_id
   \<and> updateUser (apiClient (manager_of echo_client)) sample_id
        (JObj [(''about'', JStr ''new bio''), (''name'', JUndefined)])
      = Returns (Resolved (JObj [(''updated'', sample_id),
          (''body'', JObj [(''about'', JStr ''new bio''), (''name'', JUndefined)])]))
   \<and> UsersManager_update (manager_of echo_client)
        (JObj [(''userId'', sample_id), (''about'', JStr ''new bio'')])
      = (Resolved (JObj [(''updated'', sample_id),
           (''body'', JObj [(''about'', JStr ''new bio''), (''name'', JUndefined)])]),
         [UpdateUser sample_id (JObj [(''about'', JStr ''new bio''), (''name'', JUndefined)])])"
proof -
  have valid: "isValidUuid4 (manager_of echo_client) sample_id"
    by (simp add: manager_of_def sample_id_valid)
  have resolves:
    "updateUser (apiClient (manager_of echo_client)) sample_id
        (JObj [(''about'', JStr ''new bio''), (''name'', JUndefined)])
      = Returns (Resolved (JObj [(''updated'', sample_id),
          (''body'', JObj [(''about'', JStr ''new bio''), (''name'', JUndefined)])]))"
    by (simp add: manager_of_def echo_client_def)
  show ?thesis
    using valid resolves update_by_userId_delegates [OF valid resolves] by simp
qed

text \<open>
  C10. \<^verbatim>\<open>update()\<close> with no argument: the argument object defaults to \<^verbatim>\<open>{}\<close>, the
  \<^verbatim>\<open>userId\<close> read from it is \<^verbatim>\<open>undefined\<close>, and, the validator rejecting
  \<^verbatim>\<open>undefined\<close>, \<^verbatim>\<open>_update\<close> throws \<^verbatim>\<open>Error("id must be a valid UUID v4")\<close> and
  \<^verbatim>\<open>update\<close> is rejected with it; the collaborator is not invoked. For every identifier
  \<open>ident\<close> the validator rejects, \<^verbatim>\<open>_get\<close>, \<^verbatim>\<open>_delete\<close> and \<^verbatim>\<open>_update\<close> throw an error
  with that same message.
\<close>

theorem update_without_argument_fails:
  assumes "\<not> isValidUuid4 this JUndefined"
    and "\<not> isValidUuid4 this ident"
  shows "dflt JUndefined (JObj []) = JObj []
    \<and> property (JObj []) ''userId'' = Returns JUndefined
    \<and> BaseUsersManager_update this JUndefined JUndefined JUndefined
        = (Throws (JError ''id must be a valid UUID v4''), [])
    \<and> UsersManager_update this JUndefined
        = (Rejected (JError ''id must be a valid UUID v4''), [])
    \<and> fst (BaseUsersManager_get this ident) = Throws (JError ''id must be a valid UUID v4'')
    \<and> fst (BaseUsersManager_delete this ident) = Throws (JError ''id must be a valid UUID v4'')
    \<and> fst (BaseUsersManager_update this ident about name)
        = Throws (JError ''id must be a valid UUID v4'')"
  using assms
  by (simp add: UsersManager_update_def BaseUsersManager_update_def BaseUsersManager_get_def
      BaseUsersManager_delete_def dflt_def)

theorem update_without_argument_fails_witness:
  "\<not> isValidUuid4 (manager_of echo_client) JUndefined
   \<and> \<not> isValidUuid4 (manager_of echo_client) (JStr ''42'')
   \<and> UsersManager_update (manager_of echo_client) JUndefined
        = (Rejected (JError ''id must be a valid UUID v4''), [])
   \<and> fst (BaseUsersManager_get (manager_of echo_client) (JStr ''42''))
        = Throws (JError ''id must be a valid UUID v4'')
   \<and> fst (BaseUsersManager_delete (manager_of echo_client) (JStr ''42''))
        = Throws (JError ''id must be a valid UUID v4'')
   \<and> fst (BaseUsersManager_update (manager_of echo_client) (JStr ''42'') (JStr ''bio'') JUndefined)
        = Throws (JError ''id must be a valid UUID v4'')"
proof -
  have undef: "\<not> isValidUuid4 (manager_of echo_client) JUndefined"
    by (simp add: manager_of_def)
  have short: "\<not> isValidUuid4 (manager_of echo_client) (JStr ''42'')"
    by (simp add: manager_of_def uuid4_template_def)
  show ?thesis
    using undef short
      update_without_argument_fails [OF undef short, of "JStr ''bio''" JUndefined]
    by simp
qed

section \<open>Listing\<close>

text \<open>
  C8. \<^verbatim>\<open>_listItems(limit, offset)\<close>, for every pair of values whatever (numbers in or
  out of range, strings, \<^verbatim>\<open>undefined\<close>, ...) and every validator: the collaborator's
  \<^verbatim>\<open>listUsers\<close> is invoked once with exactly these two values, and the completion of
  \<^verbatim>\<open>_listItems\<close> is that of the collaborator's call, so no error of its own (no
  \<^verbatim>\<open>Error("id must be a valid UUID v4")\<close>) is ever raised.
\<close>

theorem listItems_delegates_without_validation:
  "BaseUsersManager_listItems this limit offset
   = (listUsers (apiClient this) limit offset, [ListUsers limit offset])"
  by (simp add: BaseUsersManager_listItems_def method_catch_reject_id)

theorem listItems_delegates_without_validation_witness:
  "BaseUsersManager_listItems (manager_of echo_client) (JStr ''many'') (JNum (- 5))
   = (Returns (Resolved (JObj [(''items'', JArr [JStr ''u1'', JStr ''u2'']),
         (''limit'', JStr ''many''), (''offset'', JNum (- 5))])),
      [ListUsers (JStr ''many'') (JNum (- 5))])"
  using listItems_delegates_without_validation
    [of "manager_of echo_client" "JStr ''many''" "JNum (- 5)"]
  by (simp add: manager_of_def echo_client_def)

text \<open>
  C5. \<^verbatim>\<open>list()\<close> with no argument invokes the collaborator's \<^verbatim>\<open>listUsers\<close> once, with
  \<^verbatim>\<open>limit = 100\<close> and \<^verbatim>\<open>offset = 0\<close>; when the promise resolves with an envelope (an
  object) whose \<^verbatim>\<open>items\<close> field holds \<open>items\<close>, \<^verbatim>\<open>list()\<close> resolves with \<open>items\<close>
  alone, whatever else the envelope holds.
\<close>

theorem list_defaults_and_unwraps_items:
  assumes "listUsers (apiClient this) (JNum 100) (JNum 0) = Returns (Resolved (JObj envelope))"
    and "map_of envelope ''items'' = Some items"
  shows "UsersManager_list this JUndefined = (Resolved items, [ListUsers (JNum 100) (JNum 0)])"
  using assms
  by (simp add: UsersManager_list_def BaseUsersManager_listItems_def dflt_def
      method_catch_reject_id)

theorem list_defaults_and_unwraps_items_witness:
  "listUsers (apiClient (manager_of echo_client)) (JNum 100) (JNum 0)
     = Returns (Resolved (JObj [(''items'', JArr [JStr ''u1'', JStr ''u2'']),
         (''limit'', JNum 100), (''offset'', JNum 0)]))
   \<and> map_of [(''items'', JArr [JStr ''u1'', JStr ''u2'']),
         (''limit'', JNum 100), (''offset'', JNum 0)] ''items''
     = Some (JArr [JStr ''u1'', JStr ''u2''])
   \<and> UsersManager_list (manager_of echo_client) JUndefined
     = (Resolved (JArr [JStr ''u1'', JStr ''u2'']), [ListUsers (JNum 100) (JNum 0)])"
proof -
  have resolves:
    "listUsers (apiClient (manager_of echo_client)) (JNum 100) (JNum 0)
     = Returns (Resolved (JObj [(''items'', JArr [JStr ''u1'', JStr ''u2'']),
         (''limit'', JNum 100), (''offset'', JNum 0)]))"
    by (simp add: manager_of_def echo_client_def)
  have items:
    "map_of [(''items'', JArr [JStr ''u1'', JStr ''u2'']),
         (''limit'', JNum 100), (''offset'', JNum 0)] ''items''
     = Some (JArr [JStr ''u1'', JStr ''u2''])"
    by simp
  show ?thesis
    using resolves items list_defaults_and_unwraps_items [OF resolves items] by simp
qed

section \<open>Deletion\<close>

text \<open>
  C6. For every identifier the validator accepts, when the promise of the collaborator's
  \<^verbatim>\<open>deleteUser\<close> resolves, with whatever value \<open>v\<close>, \<^verbatim>\<open>delete(id)\<close> resolves with
  \<^verbatim>\<open>null\<close>; the collaborator is invoked once.
\<close>

theorem delete_resolves_with_null:
  assumes "isValidUuid4 this userId"
    and "deleteUser (apiClient this) userId = Returns (Resolved v)"
  shows "UsersManager_delete this userId = (Resolved JNull, [DeleteUser userId])"
  using assms
  by (simp add: UsersManager_delete_def BaseUsersManager_delete_def method_catch_reject_id)

theorem delete_resolves_with_null_witness:
  "isValidUuid4 (manager_of echo_client) sample_id
   \<and> deleteUser (apiClient (manager_of echo_client)) sample_id
       = Returns (Resolved (JStr ''deleted''))
   \<and> UsersManager_delete (manager_of echo_client) sample_id
       = (Resolved JNull, [DeleteUser sample_id])"
proof -
  have valid: "isValidUuid4 (manager_of echo_client) sample_id"
    by (simp add: manager_of_def sample_id_valid)
  have resolves: "deleteUser (apiClient (manager_of echo_client)) sample_id
      = Returns (Resolved (JStr ''deleted''))"
    by (simp add: manager_of_def echo_client_def)
  show ?thesis
    using valid resolves delete_resolves_with_null [OF valid resolves] by simp
qed

section \<open>Creation\<close>

text \<open>
  C4. \<^verbatim>\<open>create({name, about, docs})\<close> for an array \<open>docs\<close> whose elements the constructor
  \<^verbatim>\<open>CreateDoc\<close> turns into \<open>docsPrepared\<close>, one by one and in order: the collaborator's
  \<^verbatim>\<open>createUser\<close> is invoked once, with \<^verbatim>\<open>{name, about, docsPrepared}\<close>, and when its
  promise resolves with \<open>r\<close> the call resolves with exactly \<open>r\<close>. When \<^verbatim>\<open>docs\<close> is
  omitted it is the empty array: \<^verbatim>\<open>create({name, about})\<close> and \<^verbatim>\<open>_create(name, about)\<close>
  invoke \<^verbatim>\<open>createUser\<close> with an empty \<^verbatim>\<open>docsPrepared\<close>.
\<close>

theorem create_wraps_docs_and_delegates:
  assumes "map (CreateDoc this) docs = map Returns docsPrepared"
    and "createUser (apiClient this)
           (JObj [(''name'', name), (''about'', about), (''docsPrepared'', JArr docsPrepared)])
         = Returns (Resolved r)"
    and "createUser (apiClient this)
           (JObj [(''name'', name), (''about'', about), (''docsPrepared'', JArr [])])
         = Returns (Resolved r0)"
  shows "UsersManager_create this
           (JObj [(''name'', name), (''about'', about), (''docs'', JArr docs)])
         = (Resolved r,
            [CreateUser (JObj [(''name'', name), (''about'', about),
               (''docsPrepared'', JArr docsPrepared)])])
    \<and> length docsPrepared = length docs
    \<and> UsersManager_create this (JObj [(''name'', name), (''about'', about)])
         = (Resolved r0,
            [CreateUser (JObj [(''name'', name), (''about'', about),
               (''docsPrepared'', JArr [])])])
    \<and> BaseUsersManager_create this name about JUndefined
         = (Returns (Resolved r0),
            [CreateUser (JObj [(''name'', name), (''about'', about),
               (''docsPrepared'', JArr [])])])"
proof -
  have prepared: "array_map (\<lambda>doc. CreateDoc this doc) docs = Returns docsPrepared"
    using assms(1) by (simp add: array_map_Returns)
  have len: "length docsPrepared = length docs"
    using assms(1) by (metis length_map)
  have given: "UsersManager_create this
           (JObj [(''name'', name), (''about'', about), (''docs'', JArr docs)])
         = (Resolved r,
            [CreateUser (JObj [(''name'', name), (''about'', about),
               (''docsPrepared'', JArr docsPrepared)])])"
    using prepared assms(2)
    by (simp add: UsersManager_create_def BaseUsersManager_create_def dflt_def
        method_catch_reject_id)
  have base: "BaseUsersManager_create this name about JUndefined
         = (Returns (Resolved r0),
            [CreateUser (JObj [(''name'', name), (''about'', about),
               (''docsPrepared'', JArr [])])])"
    using assms(3)
    by (simp add: BaseUsersManager_create_def dflt_def method_catch_reject_id)
  have omitted: "UsersManager_create this (JObj [(''name'', name), (''about'', about)])
         = (Resolved r0,
            [CreateUser (JObj [(''name'', name), (''about'', about),
               (''docsPrepared'', JArr [])])])"
    using assms(3)
    by (simp add: UsersManager_create_def BaseUsersManager_create_def dflt_def
        method_catch_reject_id)
  from given len omitted base show ?thesis by simp
qed

theorem create_wraps_docs_and_delegates_witness:
  "map (CreateDoc (manager_of echo_client)) [JObj [(''title'', JStr ''d1'')]]
     = map Returns [JObj [(''CreateDoc'', JObj [(''title'', JStr ''d1'')])]]
   \<and> UsersManager_create (manager_of echo_client)
        (JObj [(''name'', JStr ''Ada''), (''about'', JStr ''x''),
               (''docs'', JArr [JObj [(''title'', JStr ''d1'')]])])
     = (Resolved (JObj [(''created'',
          JObj [(''name'', JStr ''Ada''), (''about'', JStr ''x''),
                (''docsPrepared'', JArr [JObj [(''CreateDoc'', JObj [(''title'', JStr ''d1'')])]])])]),
        [CreateUser (JObj [(''name'', JStr ''Ada''), (''about'', JStr ''x''),
           (''docsPrepared'', JArr [JObj [(''CreateDoc'', JObj [(''title'', JStr ''d1'')])]])])])
   \<and> UsersManager_create (manager_of echo_client)
        (JObj [(''name'', JStr ''Ada''), (''about'', JStr ''x'')])
     = (Resolved (JObj [(''created'',
          JObj [(''name'', JStr ''Ada''), (''about'', JStr ''x''), (''docsPrepared'', JArr [])])]),
        [CreateUser (JObj [(''name'', JStr ''Ada''), (''about'', JStr ''x''),
           (''docsPrepared'', JArr [])])])"
proof -
  have wrapped: "map (CreateDoc (manager_of echo_client)) [JObj [(''title'', JStr ''d1'')]]
     = map Returns [JObj [(''CreateDoc'', JObj [(''title'', JStr ''d1'')])]]"
    by (simp add: manager_of_def tagging_CreateDoc_def)
  have resolves: "createUser (apiClient (manager_of echo_client))
        (JObj [(''name'', JStr ''Ada''), (''about'', JStr ''x''),
           (''docsPrepared'', JArr [JObj [(''CreateDoc'', JObj [(''title'', JStr ''d1'')])]])])
      = Returns (Resolved (JObj [(''created'',
          JObj [(''name'', JStr ''Ada''), (''about'', JStr ''x''),
            (''docsPrepared'', JArr [JObj [(''CreateDoc'', JObj [(''title'', JStr ''d1'')])]])])]))"
    by (simp add: manager_of_def echo_client_def)
  have resolves0: "createUser (apiClient (manager_of echo_client))
        (JObj [(''name'', JStr ''Ada''), (''about'', JStr ''x''), (''docsPrepared'', JArr [])])
      = Returns (Resolved (JObj [(''created'',
          JObj [(''name'', JStr ''Ada''), (''about'', JStr ''x''),
            (''docsPrepared'', JArr [])])]))"
    by (simp add: manager_of_def echo_client_def)
  show ?thesis
    using wrapped create_wraps_docs_and_delegates [OF wrapped resolves resolves0] by simp
qed




section \<open>Failures of the collaborator\<close>

text \<open>
  C7. For each of the five operations and every argument, when the corresponding call of
  the collaborator is made and fails with \<open>e\<close> (it throws \<open>e\<close>, or its promise is
  rejected with \<open>e\<close>), the operation is rejected with exactly \<open>e\<close>, after that single
  invocation; the base method fails with \<open>e\<close> in the same way the collaborator's call
  did. For \<^verbatim>\<open>create\<close>, \<^verbatim>\<open>list\<close> and \<^verbatim>\<open>update\<close> the values passed on are those read
  from the argument object, whatever it is (\<^verbatim>\<open>list()\<close> and \<^verbatim>\<open>update()\<close> with no
  argument read them from \<^verbatim>\<open>{}\<close>); the call is made for \<^verbatim>\<open>get\<close>, \<^verbatim>\<open>delete\<close> and
  \<^verbatim>\<open>update\<close> when the validator accepts the identifier, and for \<^verbatim>\<open>create\<close> when
  \<^verbatim>\<open>CreateDoc\<close> accepts the documents.
\<close>

theorem collaborator_failure_propagates:
  "(isValidUuid4 this ident \<and> fails_with (getUser (apiClient this) ident) e
      \<longrightarrow> UsersManager_get this ident = (Rejected e, [GetUser ident])
        \<and> fails_with (fst (BaseUsersManager_get this ident)) e)
   \<and> (property createArg ''name'' = Returns name
        \<and> property createArg ''about'' = Returns about
        \<and> property createArg ''docs'' = Returns docs
        \<and> dflt docs (JArr []) = JArr ds
        \<and> map (CreateDoc this) ds = map Returns docsPrepared
        \<and> fails_with (createUser (apiClient this)
             (JObj [(''name'', name), (''about'', about), (''docsPrepared'', JArr docsPrepared)])) e
      \<longrightarrow> UsersManager_create this createArg
           = (Rejected e,
              [CreateUser (JObj [(''name'', name), (''about'', about),
                 (''docsPrepared'', JArr docsPrepared)])])
        \<and> fails_with (fst (BaseUsersManager_create this name about (dflt docs (JArr [])))) e)
   \<and> (property (dflt listArg (JObj [])) ''limit'' = Returns limit
        \<and> property (dflt listArg (JObj [])) ''offset'' = Returns offset
        \<and> fails_with (listUsers (apiClient this) (dflt limit (JNum 100)) (dflt offset (JNum 0))) e
      \<longrightarrow> UsersManager_list this listArg
           = (Rejected e, [ListUsers (dflt limit (JNum 100)) (dflt offset (JNum 0))])
        \<and> fails_with (fst (BaseUsersManager_listItems this
             (dflt limit (JNum 100)) (dflt offset (JNum 0)))) e)
   \<and> (isValidUuid4 this userId \<and> fails_with (deleteUser (apiClient this) userId) e
      \<longrightarrow> UsersManager_delete this userId = (Rejected e, [DeleteUser userId])
        \<and> fails_with (fst (BaseUsersManager_delete this userId)) e)
   \<and> (property (dflt updateArg (JObj [])) ''userId'' = Returns userId
        \<and> property (dflt updateArg (JObj [])) ''about'' = Returns newAbout
        \<and> property (dflt updateArg (JObj [])) ''name'' = Returns newName
        \<and> isValidUuid4 this userId
        \<and> fails_with (updateUser (apiClient this) userId
             (JObj [(''about'', newAbout), (''name'', newName)])) e
      \<longrightarrow> UsersManager_update this updateArg
           = (Rejected e,
              [UpdateUser userId (JObj [(''about'', newAbout), (''name'', newName)])])
        \<and> fails_with (fst (BaseUsersManager_update this userId newAbout newName)) e)"
proof -
  have get: "UsersManager_get this ident = (Rejected e, [GetUser ident])
        \<and> fails_with (fst (BaseUsersManager_get this ident)) e"
    if "isValidUuid4 this ident" "fails_with (getUser (apiClient this) ident) e"
    using that
    by (simp add: UsersManager_get_def BaseUsersManager_get_def method_catch_reject_id
        async_await_fails)
  have create: "UsersManager_create this createArg
           = (Rejected e,
              [CreateUser (JObj [(''name'', name), (''about'', about),
                 (''docsPrepared'', JArr docsPrepared)])])
        \<and> fails_with (fst (BaseUsersManager_create this name about (dflt docs (JArr [])))) e"
    if p: "property createArg ''name'' = Returns name"
      "property createArg ''about'' = Returns about"
      "property createArg ''docs'' = Returns docs"
      "dflt docs (JArr []) = JArr ds"
      "map (CreateDoc this) ds = map Returns docsPrepared"
      and f: "fails_with (createUser (apiClient this)
         (JObj [(''name'', name), (''about'', about), (''docsPrepared'', JArr docsPrepared)])) e"
  proof -
    have prepared: "array_map (\<lambda>doc. CreateDoc this doc) ds = Returns docsPrepared"
      using p(5) by (simp add: array_map_Returns)
    have "fails_with (fst (BaseUsersManager_create this name about (dflt docs (JArr [])))) e"
    proof -
      have "dflt (JArr ds) (JArr []) = JArr ds"
        by (simp add: dflt_def)
      with prepared p(4) f show ?thesis
        by (simp add: BaseUsersManager_create_def method_catch_reject_id)
    qed
    moreover have "UsersManager_create this createArg
           = (Rejected e,
              [CreateUser (JObj [(''name'', name), (''about'', about),
                 (''docsPrepared'', JArr docsPrepared)])])"
      using create_accepted [OF p] async_await_fails [OF f] by simp
    ultimately show ?thesis by simp
  qed
  have list: "UsersManager_list this listArg
           = (Rejected e, [ListUsers (dflt limit (JNum 100)) (dflt offset (JNum 0))])
        \<and> fails_with (fst (BaseUsersManager_listItems this
             (dflt limit (JNum 100)) (dflt offset (JNum 0)))) e"
    if p: "property (dflt listArg (JObj [])) ''limit'' = Returns limit"
      "property (dflt listArg (JObj [])) ''offset'' = Returns offset"
      and f: "fails_with (listUsers (apiClient this) (dflt limit (JNum 100))
          (dflt offset (JNum 0))) e"
    using list_unfold [OF p, of this] await_call_fails [OF f] f
    by (simp add: BaseUsersManager_listItems_def method_catch_reject_id)
  have delete: "UsersManager_delete this userId = (Rejected e, [DeleteUser userId])
        \<and> fails_with (fst (BaseUsersManager_delete this userId)) e"
    if "isValidUuid4 this userId" and f: "fails_with (deleteUser (apiClient this) userId) e"
    using that await_call_fails [OF f]
    by (simp add: UsersManager_delete_def BaseUsersManager_delete_def method_catch_reject_id)
  have update: "UsersManager_update this updateArg
           = (Rejected e,
              [UpdateUser userId (JObj [(''about'', newAbout), (''name'', newName)])])
        \<and> fails_with (fst (BaseUsersManager_update this userId newAbout newName)) e"
    if p: "property (dflt updateArg (JObj [])) ''userId'' = Returns userId"
      "property (dflt updateArg (JObj [])) ''about'' = Returns newAbout"
      "property (dflt updateArg (JObj [])) ''name'' = Returns newName"
      "isValidUuid4 this userId"
      and f: "fails_with (updateUser (apiClient this) userId
         (JObj [(''about'', newAbout), (''name'', newName)])) e"
    using update_unfold [OF p] async_await_fails [OF f] f p(4)
    by (simp add: BaseUsersManager_update_def method_catch_reject_id)
  from get create list delete update show ?thesis by blast
qed

theorem collaborator_failure_propagates_witness:
  "UsersManager_get (manager_of (rejecting_client (JStr ''503''))) sample_id
     = (Rejected (JStr ''503''), [GetUser sample_id])
   \<and> UsersManager_create (manager_of (rejecting_client (JStr ''503'')))
        (JObj [(''name'', JStr ''Ada''), (''about'', JStr ''x'')])
     = (Rejected (JStr ''503''),
        [CreateUser (JObj [(''name'', JStr ''Ada''), (''about'', JStr ''x''),
           (''docsPrepared'', JArr [])])])
   \<and> UsersManager_list (manager_of (rejecting_client (JStr ''503''))) JUndefined
     = (Rejected (JStr ''503''), [ListUsers (JNum 100) (JNum 0)])
   \<and> UsersManager_delete (manager_of (rejecting_client (JStr ''503''))) sample_id
     = (Rejected (JStr ''503''), [DeleteUser sample_id])
   \<and> UsersManager_update (manager_of (rejecting_client (JStr ''503'')))
        (JObj [(''userId'', sample_id), (''about'', JStr ''new bio'')])
     = (Rejected (JStr ''503''),
        [UpdateUser sample_id (JObj [(''about'', JStr ''new bio''), (''name'', JUndefined)])])"
proof -
  let ?M = "manager_of (rejecting_client (JStr ''503''))"
  have valid: "isValidUuid4 ?M sample_id"
    by (simp add: manager_of_def sample_id_valid)
  have fails: "fails_with (getUser (apiClient ?M) a) (JStr ''503'')"
      "fails_with (createUser (apiClient ?M) a) (JStr ''503'')"
      "fails_with (listUsers (apiClient ?M) a b) (JStr ''503'')"
      "fails_with (deleteUser (apiClient ?M) a) (JStr ''503'')"
      "fails_with (updateUser (apiClient ?M) a b) (JStr ''503'')" for a b
    by (simp_all add: fails_with_def manager_of_def rejecting_client_def)
  have create_arg:
    "property (JObj [(''name'', JStr ''Ada''), (''about'', JStr ''x'')]) ''name''
       = Returns (JStr ''Ada'')"
    "property (JObj [(''name'', JStr ''Ada''), (''about'', JStr ''x'')]) ''about''
       = Returns (JStr ''x'')"
    "property (JObj [(''name'', JStr ''Ada''), (''about'', JStr ''x'')]) ''docs''
       = Returns JUndefined"
    "dflt JUndefined (JArr []) = JArr []"
    "map (CreateDoc ?M) [] = map Returns []"
    by (simp_all add: dflt_def)
  have list_arg:
    "property (dflt JUndefined (JObj [])) ''limit'' = Returns JUndefined"
    "property (dflt JUndefined (JObj [])) ''offset'' = Returns JUndefined"
    "dflt JUndefined (JNum 100) = JNum 100" "dflt JUndefined (JNum 0) = JNum 0"
    by (simp_all add: dflt_def)
  have update_arg:
    "property (dflt (JObj [(''userId'', sample_id), (''about'', JStr ''new bio'')]) (JObj []))
       ''userId'' = Returns sample_id"
    "property (dflt (JObj [(''userId'', sample_id), (''about'', JStr ''new bio'')]) (JObj []))
       ''about'' = Returns (JStr ''new bio'')"
    "property (dflt (JObj [(''userId'', sample_id), (''about'', JStr ''new bio'')]) (JObj []))
       ''name'' = Returns JUndefined"
    by (simp_all add: dflt_def)
  show ?thesis
    using collaborator_failure_propagates
      [where this = ?M and e = "JStr ''503''"
        and ident = sample_id and userId = sample_id
        and createArg = "JObj [(''name'', JStr ''Ada''), (''about'', JStr ''x'')]"
        and name = "JStr ''Ada''" and about = "JStr ''x''" and docs = JUndefined
        and ds = "[]" and docsPrepared = "[]"
        and listArg = JUndefined and limit = JUndefined and offset = JUndefined
        and updateArg = "JObj [(''userId'', sample_id), (''about'', JStr ''new bio'')]"
        and newAbout = "JStr ''new bio''" and newName = JUndefined]
      valid fails create_arg list_arg update_arg
    by simp
qed

end
